theory Spec2Isabelle
  imports Complex_Main "HOL-Library.AList" "HOL-Library.Char_ord" "HOL-Library.List_Lexorder"
begin

section \<open>JSON values and the Python operations the handlers use on them\<close>

text \<open>
  The payloads handled by \<^verbatim>\<open>app.py\<close> are what \<^verbatim>\<open>json.loads\<close> and
  \<^verbatim>\<open>response.json()\<close> return: \<^verbatim>\<open>None\<close>, booleans, integers, floats, strings,
  lists and dictionaries with string keys. A dictionary is an association list in
  insertion order, as Python keeps it. A float is represented by its rational value
  (the values \<^verbatim>\<open>nan\<close> and \<^verbatim>\<open>inf\<close> have no representation here).
\<close>

datatype json =
    JNull
  | JBool bool
  | JInt int
  | JFloat rat
  | JStr string
  | JList "json list"
  | JDict "(string \<times> json) list"

text \<open>Exceptions: those the interpreter raises, those of the libraries (with the text
  of \<^verbatim>\<open>str(e)\<close>), and \<^verbatim>\<open>raise Exception(msg)\<close>.\<close>

datatype exn =
    TypeError
  | AttributeError
  | KeyError
  | RequestException string
  | DbError string
  | Exception string

text \<open>Truth value of an object: \<^verbatim>\<open>not x\<close> is \<open>\<not> truthy x\<close>.\<close>

fun truthy :: "json \<Rightarrow> bool" where
  "truthy JNull = False"
| "truthy (JBool b) = b"
| "truthy (JInt i) = (i \<noteq> 0)"
| "truthy (JFloat r) = (r \<noteq> 0)"
| "truthy (JStr s) = (s \<noteq> [])"
| "truthy (JList xs) = (xs \<noteq> [])"
| "truthy (JDict kvs) = (kvs \<noteq> [])"

text \<open>\<^verbatim>\<open>d.get(k, default)\<close> on a dictionary.\<close>

definition dict_get :: "(string \<times> json) list \<Rightarrow> string \<Rightarrow> json \<Rightarrow> json" where
  "dict_get kvs k dflt = (case map_of kvs k of None \<Rightarrow> dflt | Some v \<Rightarrow> v)"

text \<open>\<^verbatim>\<open>x.get(k, default)\<close> on any object: only dictionaries have the method.\<close>

fun py_get :: "json \<Rightarrow> string \<Rightarrow> json \<Rightarrow> exn + json" where
  "py_get (JDict kvs) k dflt = Inr (dict_get kvs k dflt)"
| "py_get _ k dflt = Inl AttributeError"

text \<open>\<^verbatim>\<open>sub in s\<close> on strings.\<close>

fun substring :: "string \<Rightarrow> string \<Rightarrow> bool" where
  "substring sub [] = (sub = [])"
| "substring sub (c # cs) = (take (length sub) (c # cs) = sub \<or> substring sub cs)"

text \<open>\<^verbatim>\<open>k in x\<close> for a string \<open>k\<close>: key membership in a dictionary, element membership
  in a list, substring test in a string, \<^verbatim>\<open>TypeError\<close> on anything else.\<close>

fun py_contains :: "json \<Rightarrow> string \<Rightarrow> exn + bool" where
  "py_contains (JDict kvs) k = Inr (map_of kvs k \<noteq> None)"
| "py_contains (JList xs) k = Inr (JStr k \<in> set xs)"
| "py_contains (JStr s) k = Inr (substring k s)"
| "py_contains _ k = Inl TypeError"

text \<open>\<^verbatim>\<open>for c in x\<close>: the elements of a list, the keys of a dictionary, the characters of
  a string, \<^verbatim>\<open>TypeError\<close> on anything else.\<close>

fun py_iter :: "json \<Rightarrow> exn + json list" where
  "py_iter (JList xs) = Inr xs"
| "py_iter (JDict kvs) = Inr (map (\<lambda>kv. JStr (fst kv)) kvs)"
| "py_iter (JStr s) = Inr (map (\<lambda>c. JStr [c]) s)"
| "py_iter _ = Inl TypeError"

text \<open>Numbers compare by value across \<^verbatim>\<open>bool\<close>, \<^verbatim>\<open>int\<close> and \<^verbatim>\<open>float\<close>
  (\<^verbatim>\<open>True == 1 == 1.0\<close>).\<close>

fun num_val :: "json \<Rightarrow> rat option" where
  "num_val (JBool b) = Some (if b then 1 else 0)"
| "num_val (JInt i) = Some (of_int i)"
| "num_val (JFloat r) = Some r"
| "num_val _ = None"

text \<open>\<^verbatim>\<open>v == i\<close> for an integer literal \<open>i\<close>.\<close>

definition py_eq_int :: "json \<Rightarrow> int \<Rightarrow> bool" where
  "py_eq_int v i = (num_val v = Some (of_int i))"

text \<open>Dictionary keys: lists and dictionaries are unhashable; two hashable keys are the
  same key when they are equal under \<^verbatim>\<open>==\<close>.\<close>

fun hashable :: "json \<Rightarrow> bool" where
  "hashable (JList xs) = False"
| "hashable (JDict kvs) = False"
| "hashable _ = True"

definition key_eq :: "json \<Rightarrow> json \<Rightarrow> bool" where
  "key_eq a b =
     (case num_val a of
        Some x \<Rightarrow> (case num_val b of Some y \<Rightarrow> x = y | None \<Rightarrow> False)
      | None \<Rightarrow> (case num_val b of Some y \<Rightarrow> False | None \<Rightarrow> a = b))"

section \<open>The normalizer: \<^verbatim>\<open>extract_green_centers\<close> and \<^verbatim>\<open>extract_pars\<close>\<close>

type_synonym pydict = "(string \<times> json) list"

text \<open>\<^verbatim>\<open>holes_data\<close>: a dictionary from hole number to the hole's dictionary.\<close>

type_synonym holes = "(json \<times> pydict) list"

text \<open>\<^verbatim>\<open>hole_number in holes_data\<close>\<close>

fun holes_mem :: "holes \<Rightarrow> json \<Rightarrow> bool" where
  "holes_mem [] k = False"
| "holes_mem (p # ps) k = (key_eq (fst p) k \<or> holes_mem ps k)"

text \<open>\<^verbatim>\<open>holes_data[k]\<close>, which raises \<^verbatim>\<open>KeyError\<close> on a missing key.\<close>

fun holes_get :: "holes \<Rightarrow> json \<Rightarrow> exn + pydict" where
  "holes_get [] k = Inl KeyError"
| "holes_get (p # ps) k = (if key_eq (fst p) k then Inr (snd p) else holes_get ps k)"

text \<open>\<^verbatim>\<open>holes_data[k] = d\<close>: an existing key keeps its place (and its key object), a new
  key goes to the end.\<close>

fun holes_set :: "holes \<Rightarrow> json \<Rightarrow> pydict \<Rightarrow> holes" where
  "holes_set [] k d = [(k, d)]"
| "holes_set (p # ps) k d = (if key_eq (fst p) k then (fst p, d) # ps else p # holes_set ps k d)"

text \<open>\<^verbatim>\<open>holes_data[k][field] = v\<close>: the inner dictionary of an existing key is updated in
  place; a missing key raises \<^verbatim>\<open>KeyError\<close>.\<close>

definition holes_set_field :: "holes \<Rightarrow> json \<Rightarrow> string \<Rightarrow> json \<Rightarrow> exn + holes" where
  "holes_set_field hs k field v =
     (case holes_get hs k of
        Inl e \<Rightarrow> Inl e
      | Inr d \<Rightarrow> Inr (holes_set hs k (AList.update field v d)))"

text \<open>\<^verbatim>\<open>{'latitude': coord.get('latitude'), 'longitude': coord.get('longitude')}\<close>\<close>

definition lat_long :: "pydict \<Rightarrow> json" where
  "lat_long coord =
     JDict [(''latitude'', dict_get coord ''latitude'' JNull),
            (''longitude'', dict_get coord ''longitude'' JNull)]"

text \<open>The filter of line 325:
  \<^verbatim>\<open>coord.get('poi') == 1 and coord.get('location') in [1, 2, 3]\<close>.\<close>

definition is_green :: "pydict \<Rightarrow> bool" where
  "is_green coord =
     (py_eq_int (dict_get coord ''poi'' JNull) 1 \<and>
      (py_eq_int (dict_get coord ''location'' JNull) 1 \<or>
       py_eq_int (dict_get coord ''location'' JNull) 2 \<or>
       py_eq_int (dict_get coord ''location'' JNull) 3))"

text \<open>One iteration of the loop of lines 323-350.\<close>

fun green_step :: "holes \<Rightarrow> json \<Rightarrow> exn + holes" where
  "green_step holes_data (JDict coord) =
     (if is_green coord then
        (let hole_number = dict_get coord ''hole'' JNull;
             location = dict_get coord ''location'' JNull
         in if \<not> hashable hole_number then Inl TypeError
            else
              (let holes_data1 =
                     (if \<not> holes_mem holes_data hole_number
                      then holes_set holes_data hole_number [(''holeNumber'', hole_number)]
                      else holes_data)
               in if py_eq_int location 1
                  then holes_set_field holes_data1 hole_number ''frontOfGreen'' (lat_long coord)
                  else if py_eq_int location 2
                  then holes_set_field holes_data1 hole_number ''centerOfGreen'' (lat_long coord)
                  else if py_eq_int location 3
                  then holes_set_field holes_data1 hole_number ''backOfGreen'' (lat_long coord)
                  else Inr holes_data1))
      else Inr holes_data)"
| "green_step holes_data _ = Inl AttributeError"

text \<open>The loop itself: the first exception ends it.\<close>

fun green_loop :: "holes \<Rightarrow> json list \<Rightarrow> exn + holes" where
  "green_loop holes_data [] = Inr holes_data"
| "green_loop holes_data (coord # rest) =
     (case green_step holes_data coord of
        Inl e \<Rightarrow> Inl e
      | Inr holes_data' \<Rightarrow> green_loop holes_data' rest)"

text \<open>\<^verbatim>\<open>sorted(holes_data.keys())\<close>. The keys are pairwise different under \<^verbatim>\<open>==\<close>.
  Numbers order by value and strings lexicographically; any other pair of keys is
  unorderable, and sorting raises \<^verbatim>\<open>TypeError\<close> as soon as two keys are. A list of at
  most one key is returned without a comparison.\<close>

fun is_str :: "json \<Rightarrow> bool" where
  "is_str (JStr s) = True"
| "is_str _ = False"

fun str_val :: "json \<Rightarrow> string" where
  "str_val (JStr s) = s"
| "str_val _ = []"

definition num_key :: "json \<Rightarrow> rat" where
  "num_key k = (case num_val k of Some r \<Rightarrow> r | None \<Rightarrow> 0)"

definition py_sorted :: "json list \<Rightarrow> exn + json list" where
  "py_sorted ks =
     (if length ks \<le> 1 then Inr ks
      else if list_all (\<lambda>k. num_val k \<noteq> None) ks then Inr (sort_key num_key ks)
      else if list_all is_str ks then Inr (sort_key str_val ks)
      else Inl TypeError)"

text \<open>\<^verbatim>\<open>[holes_data[hole] for hole in keys]\<close>\<close>

fun holes_list_of :: "holes \<Rightarrow> json list \<Rightarrow> exn + json list" where
  "holes_list_of holes_data [] = Inr []"
| "holes_list_of holes_data (k # ks) =
     (case holes_get holes_data k of
        Inl e \<Rightarrow> Inl e
      | Inr d \<Rightarrow>
          (case holes_list_of holes_data ks of
             Inl e \<Rightarrow> Inl e
           | Inr ds \<Rightarrow> Inr (JDict d # ds)))"

definition invalid_coordinates :: json where
  "invalid_coordinates =
     JDict [(''error'', JStr ''Invalid course data format''), (''holes'', JList [])]"

definition extract_green_centers :: "json \<Rightarrow> exn + json" where
  "extract_green_centers coordinates_data =
     (if \<not> truthy coordinates_data then Inr invalid_coordinates
      else
        (case py_contains coordinates_data ''coordinates'' of
           Inl e \<Rightarrow> Inl e
         | Inr False \<Rightarrow> Inr invalid_coordinates
         | Inr True \<Rightarrow>
             (case py_get coordinates_data ''coordinates'' (JList []) of
                Inl e \<Rightarrow> Inl e
              | Inr coords \<Rightarrow>
             (case py_iter coords of
                Inl e \<Rightarrow> Inl e
              | Inr entries \<Rightarrow>
             (case green_loop [] entries of
                Inl e \<Rightarrow> Inl e
              | Inr holes_data \<Rightarrow>
             (case py_sorted (map fst holes_data) of
                Inl e \<Rightarrow> Inl e
              | Inr keys \<Rightarrow>
             (case holes_list_of holes_data keys of
                Inl e \<Rightarrow> Inl e
              | Inr holes_list \<Rightarrow>
             (case py_get coordinates_data ''courseID'' (JStr []) of
                Inl e \<Rightarrow> Inl e
              | Inr course \<Rightarrow>
                  Inr (JDict [(''courseID'', course),
                              (''holes'', JList holes_list),
                              (''count'', JInt (int (length holes_list)))])))))))))"

definition invalid_info :: json where
  "invalid_info = JDict [(''error'', JStr ''Invalid course data format'')]"

definition extract_pars :: "json \<Rightarrow> exn + json" where
  "extract_pars info_data =
     (if \<not> truthy info_data then Inr invalid_info
      else
        (case py_get info_data ''parsMen'' (JList []) of
           Inl e \<Rightarrow> Inl e
         | Inr pars_men \<Rightarrow>
        (case py_get info_data ''parsWomen'' (JList []) of
           Inl e \<Rightarrow> Inl e
         | Inr pars_women \<Rightarrow>
        (case py_get info_data ''courseID'' (JStr []) of
           Inl e \<Rightarrow> Inl e
         | Inr course \<Rightarrow>
             Inr (JDict [(''courseID'', course),
                         (''parsMen'', pars_men),
                         (''parsWomen'', pars_women)])))))"

section \<open>Configuration, collaborators and the state of the world\<close>

text \<open>A handler's return value: the JSON body and the HTTP status.\<close>

type_synonym response = "json \<times> int"

text \<open>\<^verbatim>\<open>return jsonify(x)\<close> answers with status 200.\<close>

definition jsonify :: "json \<Rightarrow> response" where
  "jsonify v = (v, 200)"

text \<open>What \<^verbatim>\<open>requests.get\<close> returns: the status, the body text, and the result of
  \<^verbatim>\<open>response.json()\<close> (which raises on a body that is not JSON).\<close>

record http_response =
  status_code :: int
  response_text :: string
  response_json :: "exn + json"

text \<open>The message \<^verbatim>\<open>send_course_email\<close> hands to the SMTP server.\<close>

record email =
  mail_from :: string
  mail_to :: string
  mail_subject :: string
  mail_body :: string
  attachment_name :: string
  attachment_data :: string

text \<open>
  The libraries are parameters of the model: the HTTP client (given the URL and the
  \<^verbatim>\<open>Authorization\<close> header), the mail libraries (given user, password and message;
  \<open>Some e\<close> when assembling the MIME message, the login or the sending raises), \<^verbatim>\<open>json.loads\<close> (\<open>None\<close> for
  \<^verbatim>\<open>JSONDecodeError\<close>), \<^verbatim>\<open>json.dumps\<close> with and without indentation, \<^verbatim>\<open>str\<close> on a
  JSON value, and the interpreter's message text of a built-in exception.
\<close>

record library =
  requests_get :: "string \<Rightarrow> string \<Rightarrow> exn + http_response"
  smtp_send :: "string \<Rightarrow> string \<Rightarrow> email \<Rightarrow> exn option"
  json_loads :: "string \<Rightarrow> json option"
  json_dumps :: "json \<Rightarrow> string"
  json_dumps_indent :: "json \<Rightarrow> string"
  py_str :: "json \<Rightarrow> string"
  exn_text :: "exn \<Rightarrow> string"

text \<open>The environment variables read by the handlers and the module-level
  \<^verbatim>\<open>COURSES\<close> (the \<^verbatim>\<open>'courses'\<close> entry of the JSON file, or \<^verbatim>\<open>[]\<close>).\<close>

record config =
  GOLF_API_TOKEN :: "string option"
  GMAIL_USER :: "string option"
  GMAIL_APP_PASSWORD :: "string option"
  RECIPIENT_EMAIL :: "string option"
  COURSES :: json

text \<open>A cache table maps a key to the row's \<^verbatim>\<open>value\<close> (as the driver returns it: a
  string, or structured data) and its \<^verbatim>\<open>inserted_at\<close>.\<close>

type_synonym table = "string \<rightharpoonup> json \<times> nat"

text \<open>
  The world a handler runs in: whether the database can be reached
  (\<open>Some msg\<close> when \<^verbatim>\<open>get_db_connection\<close> raises a \<^verbatim>\<open>psycopg2.Error\<close>), the two tables,
  the database's clock (\<^verbatim>\<open>NOW()\<close>), and three traces: the requests made to the Golf
  API, the calls of \<^verbatim>\<open>send_course_email\<close>, and the messages the SMTP server accepted.
  Log lines are not part of the model.
\<close>

record world =
  db_connect_error :: "string option"
  course_poi_cache :: table
  course_info_cache :: table
  now :: nat
  upstream_calls :: "(string \<times> string) list"
  notify_calls :: "(string \<times> json \<times> json \<times> string \<times> json) list"
  emails_sent :: "email list"

section \<open>The database statements\<close>

text \<open>\<^verbatim>\<open>SELECT value FROM ... WHERE key = %s\<close> followed by \<^verbatim>\<open>fetchone()\<close>.\<close>

definition select_value :: "table \<Rightarrow> string \<Rightarrow> json option" where
  "select_value t k = map_option fst (t k)"

text \<open>
  Modelled from the spec: the declaration of the tables is not in the source; a row
  inserted without \<^verbatim>\<open>inserted_at\<close> gets the time of the insert (the
  \<^verbatim>\<open>insertedAt\<close> timestamp of a cache entry).

  Lines 128-136, \<^verbatim>\<open>store_cached_course_poi\<close>:
  \<^verbatim>\<open>INSERT ... ON CONFLICT (key) DO UPDATE SET value = %s, inserted_at = NOW()\<close>.
\<close>

definition upsert_touch :: "table \<Rightarrow> string \<Rightarrow> json \<Rightarrow> nat \<Rightarrow> table" where
  "upsert_touch t k v ts = t(k \<mapsto> (v, ts))"

text \<open>Lines 192-200 and 273-281, the two resolvers:
  \<^verbatim>\<open>INSERT ... ON CONFLICT (key) DO UPDATE SET value = %s\<close>.\<close>

definition upsert_value :: "table \<Rightarrow> string \<Rightarrow> json \<Rightarrow> nat \<Rightarrow> table" where
  "upsert_value t k v ts =
     (case t k of
        None \<Rightarrow> t(k \<mapsto> (v, ts))
      | Some row \<Rightarrow> t(k \<mapsto> (v, snd row)))"

section \<open>\<^verbatim>\<open>email_service.send_course_email\<close>\<close>

text \<open>The ASCII characters \<^verbatim>\<open>str.split()\<close> treats as whitespace.\<close>

definition is_space :: "char \<Rightarrow> bool" where
  "is_space c = ((of_char c :: nat) \<in> {9, 10, 11, 12, 13, 28, 29, 30, 31, 32})"

text \<open>\<^verbatim>\<open>''.join(s.split())\<close>\<close>

definition remove_whitespace :: "string \<Rightarrow> string" where
  "remove_whitespace s = filter (\<lambda>c. \<not> is_space c) s"

text \<open>\<^verbatim>\<open>s.encode('ascii', 'ignore').decode('ascii')\<close>\<close>

definition ascii_only :: "string \<Rightarrow> string" where
  "ascii_only s = filter (\<lambda>c. (of_char c :: nat) < 128) s"

text \<open>\<^verbatim>\<open>s.lower()\<close>, on the ASCII letters.\<close>

definition lower :: "string \<Rightarrow> string" where
  "lower s =
     map (\<lambda>c. case map_of (zip ''ABCDEFGHIJKLMNOPQRSTUVWXYZ'' ''abcdefghijklmnopqrstuvwxyz'') c of
                None \<Rightarrow> c
              | Some l \<Rightarrow> l) s"

text \<open>\<^verbatim>\<open>s.replace(' ', '_')\<close>\<close>

definition replace_spaces :: "string \<Rightarrow> string" where
  "replace_spaces s = map (\<lambda>c. if c = CHR '' '' then CHR ''_'' else c) s"

text \<open>Lines 44-74, the message. A course name that is not a string has no
  \<^verbatim>\<open>replace\<close> method, and line 69 raises.\<close>

definition build_message ::
  "library \<Rightarrow> string \<Rightarrow> string \<Rightarrow> string \<Rightarrow> json \<Rightarrow> json \<Rightarrow> string \<Rightarrow> json \<Rightarrow> exn + email" where
  "build_message lib gmail_user recipient_email course_id course_name course_data data_type
       api_requests_left =
     (case course_name of
        JStr name \<Rightarrow>
          Inr \<lparr> mail_from = gmail_user,
                mail_to = recipient_email,
                mail_subject = ascii_only (''Golf Course '' @ data_type @ '': '' @ name),
                mail_body =
                  ''Attached is the '' @ lower data_type @ '' data for '' @ name @
                  '' (ID: '' @ course_id @ '').'' @
                  (if truthy api_requests_left
                   then [CHR 0x0A, CHR 0x0A] @ ''You have '' @ py_str lib api_requests_left @
                        '' API requests remaining.''
                   else []),
                attachment_name =
                  ascii_only (course_id @ ''_'' @ replace_spaces name) @ ''_'' @
                  lower data_type @ ''.json'',
                attachment_data = json_dumps_indent lib course_data \<rparr>
      | _ \<Rightarrow> Inl AttributeError)"

text \<open>Lines 43-88, the \<^verbatim>\<open>try\<close> block with its \<^verbatim>\<open>except Exception\<close>: any exception
  while building or sending makes the function return \<^verbatim>\<open>False\<close>.\<close>

definition try_send ::
  "library \<Rightarrow> string \<Rightarrow> string \<Rightarrow> string \<Rightarrow> string \<Rightarrow> json \<Rightarrow> json \<Rightarrow> string \<Rightarrow> json \<Rightarrow>
   world \<Rightarrow> (exn + bool) \<times> world" where
  "try_send lib gmail_user gmail_password recipient_email course_id course_name course_data
       data_type api_requests_left w =
     (case build_message lib gmail_user recipient_email course_id course_name course_data
             data_type api_requests_left of
        Inl e \<Rightarrow> (Inr False, w)
      | Inr msg \<Rightarrow>
          (case smtp_send lib gmail_user gmail_password msg of
             Some e \<Rightarrow> (Inr False, w)
           | None \<Rightarrow> (Inr True, w\<lparr>emails_sent := emails_sent w @ [msg]\<rparr>)))"

text \<open>\<^verbatim>\<open>not s\<close> for the result of \<^verbatim>\<open>os.getenv\<close>: unset or empty.\<close>

definition unset :: "string option \<Rightarrow> bool" where
  "unset s = (case s of None \<Rightarrow> True | Some t \<Rightarrow> t = [])"

definition send_course_email ::
  "library \<Rightarrow> config \<Rightarrow> string \<Rightarrow> json \<Rightarrow> json \<Rightarrow> string \<Rightarrow> json \<Rightarrow> world \<Rightarrow>
   (exn + bool) \<times> world" where
  "send_course_email lib cfg course_id course_name course_data data_type api_requests_left w =
     (let w1 = w\<lparr>notify_calls := notify_calls w @
                   [(course_id, course_name, course_data, data_type, api_requests_left)]\<rparr>;
          gmail_user = GMAIL_USER cfg;
          gmail_password = map_option remove_whitespace (GMAIL_APP_PASSWORD cfg);
          recipient_email = RECIPIENT_EMAIL cfg
      in if unset gmail_user \<or> unset gmail_password \<or> unset recipient_email
         then (Inr False, w1)
         else
           (case gmail_user of
              None \<Rightarrow> (Inr False, w1)
            | Some user \<Rightarrow>
           (case gmail_password of
              None \<Rightarrow> (Inr False, w1)
            | Some password \<Rightarrow>
           (case recipient_email of
              None \<Rightarrow> (Inr False, w1)
            | Some recipient \<Rightarrow>
                try_send lib user password recipient course_id course_name course_data
                  data_type api_requests_left w1))))"

section \<open>The resolvers: \<^verbatim>\<open>get_course_coordinates\<close> and \<^verbatim>\<open>get_course_info\<close>\<close>

text \<open>\<^verbatim>\<open>str(e)\<close>\<close>

fun str_exn :: "library \<Rightarrow> exn \<Rightarrow> string" where
  "str_exn lib (RequestException m) = m"
| "str_exn lib (DbError m) = m"
| "str_exn lib (Exception m) = m"
| "str_exn lib e = exn_text lib e"

text \<open>The two \<^verbatim>\<open>except\<close> clauses of \<^verbatim>\<open>db_error_handler\<close>.\<close>

fun error_response :: "library \<Rightarrow> exn \<Rightarrow> response" where
  "error_response lib (DbError m) =
     (JDict [(''error'', JStr ''Database error''), (''details'', JStr m)], 500)"
| "error_response lib e =
     (JDict [(''error'', JStr ''Server error''), (''details'', JStr (str_exn lib e))], 500)"

text \<open>The decorator: what the handler returns, or the error response for what it
  raises. What the handler wrote before raising stays written (the connection is in
  autocommit mode).\<close>

definition db_error_handler :: "library \<Rightarrow> (exn + response) \<times> world \<Rightarrow> response \<times> world" where
  "db_error_handler lib r =
     (case fst r of
        Inl e \<Rightarrow> (error_response lib e, snd r)
      | Inr resp \<Rightarrow> (resp, snd r))"

text \<open>The two kinds of data, and what the two resolvers do differently by kind.\<close>

datatype kind = Coordinates | Info

definition cache_key :: "kind \<Rightarrow> string \<Rightarrow> string" where
  "cache_key k course_id =
     (case k of
        Coordinates \<Rightarrow> ''coordinates_'' @ course_id
      | Info \<Rightarrow> ''info_'' @ course_id)"

definition golf_api_url :: "kind \<Rightarrow> string \<Rightarrow> string" where
  "golf_api_url k course_id =
     (case k of
        Coordinates \<Rightarrow> ''https://www.golfapi.io/api/v2.3/coordinates/'' @ course_id
      | Info \<Rightarrow> ''https://www.golfapi.io/api/v2.3/courses/'' @ course_id)"

definition cache_of :: "kind \<Rightarrow> world \<Rightarrow> table" where
  "cache_of k w = (case k of Coordinates \<Rightarrow> course_poi_cache w | Info \<Rightarrow> course_info_cache w)"

definition cache_insert :: "kind \<Rightarrow> string \<Rightarrow> json \<Rightarrow> world \<Rightarrow> world" where
  "cache_insert k key v w =
     (case k of
        Coordinates \<Rightarrow> w\<lparr>course_poi_cache := upsert_value (course_poi_cache w) key v (now w)\<rparr>
      | Info \<Rightarrow> w\<lparr>course_info_cache := upsert_value (course_info_cache w) key v (now w)\<rparr>)"

definition data_type_of :: "kind \<Rightarrow> string" where
  "data_type_of k = (case k of Coordinates \<Rightarrow> ''POI'' | Info \<Rightarrow> ''Info'')"

definition normalize :: "kind \<Rightarrow> json \<Rightarrow> exn + json" where
  "normalize k raw =
     (case k of Coordinates \<Rightarrow> extract_green_centers raw | Info \<Rightarrow> extract_pars raw)"

text \<open>Lines 160-169 and 244-253, a cache hit: a string is parsed, anything else is
  taken as it is, the data is normalised and returned.\<close>

definition decode_cached :: "library \<Rightarrow> json \<Rightarrow> exn + json" where
  "decode_cached lib v =
     (case v of
        JStr s \<Rightarrow>
          (case json_loads lib s of
             None \<Rightarrow> Inl (Exception ''Invalid JSON data in cache'')
           | Some data \<Rightarrow> Inr data)
      | _ \<Rightarrow> Inr v)"

definition cached_response :: "library \<Rightarrow> kind \<Rightarrow> json \<Rightarrow> exn + response" where
  "cached_response lib k v =
     (case decode_cached lib v of
        Inl e \<Rightarrow> Inl e
      | Inr data \<Rightarrow>
          (case normalize k data of
             Inl e \<Rightarrow> Inl e
           | Inr processed_data \<Rightarrow> Inr (jsonify processed_data)))"

text \<open>Lines 203-207 and 284-288, the course name for the email.\<close>

fun find_course_name :: "json list \<Rightarrow> string \<Rightarrow> exn + json" where
  "find_course_name [] course_id = Inr (JStr ''Unknown Course'')"
| "find_course_name (course # rest) course_id =
     (case py_get course ''courseId'' JNull of
        Inl e \<Rightarrow> Inl e
      | Inr cid \<Rightarrow>
          if cid = JStr course_id
          then py_get course ''courseName'' (JStr ''Unknown Course'')
          else find_course_name rest course_id)"

definition course_name_of :: "json \<Rightarrow> string \<Rightarrow> exn + json" where
  "course_name_of courses course_id =
     (case py_iter courses of
        Inl e \<Rightarrow> Inl e
      | Inr cs \<Rightarrow> find_course_name cs course_id)"

text \<open>\<^verbatim>\<open>f"Bearer {golf_api_token}"\<close>: an unset token is formatted as \<^verbatim>\<open>None\<close>.\<close>

definition bearer :: "string option \<Rightarrow> string" where
  "bearer token = ''Bearer '' @ (case token of None \<Rightarrow> ''None'' | Some t \<Rightarrow> t)"

text \<open>
  The body of the \<^verbatim>\<open>try\<close> block, lines 180-220 and 261-301 (the two differ in the
  table, the URL, the label of the email and the normaliser): the request, and on
  status 200 the cache write, the course name, the email and the normalised answer;
  on any other status the upstream's status and body.
\<close>

definition fetch_upstream ::
  "library \<Rightarrow> config \<Rightarrow> kind \<Rightarrow> string \<Rightarrow> world \<Rightarrow> (exn + response) \<times> world" where
  "fetch_upstream lib cfg k course_id w =
     (let url = golf_api_url k course_id;
          authorization = bearer (GOLF_API_TOKEN cfg);
          w1 = w\<lparr>upstream_calls := upstream_calls w @ [(url, authorization)]\<rparr>
      in case requests_get lib url authorization of
           Inl e \<Rightarrow> (Inl e, w1)
         | Inr response \<Rightarrow>
             if status_code response = 200 then
               (case response_json response of
                  Inl e \<Rightarrow> (Inl e, w1)
                | Inr data \<Rightarrow>
               (case py_get data ''apiRequestsLeft'' JNull of
                  Inl e \<Rightarrow> (Inl e, w1)
                | Inr api_requests_left \<Rightarrow>
               (let w2 = cache_insert k (cache_key k course_id) (JStr (json_dumps lib data)) w1
                in case course_name_of (COURSES cfg) course_id of
                     Inl e \<Rightarrow> (Inl e, w2)
                   | Inr course_name \<Rightarrow>
               (let sent = send_course_email lib cfg course_id course_name data
                             (data_type_of k) api_requests_left w2;
                    w3 = snd sent
                in case fst sent of
                     Inl e \<Rightarrow> (Inl e, w3)
                   | Inr ok \<Rightarrow>
               (case normalize k data of
                  Inl e \<Rightarrow> (Inl e, w3)
                | Inr processed_data \<Rightarrow> (Inr (jsonify processed_data), w3))))))
             else
               (Inr (JDict [(''error'', JStr ''Golf API request failed''),
                            (''status_code'', JInt (status_code response)),
                            (''details'', JStr (response_text response))],
                     status_code response), w1))"

text \<open>\<^verbatim>\<open>except requests.exceptions.RequestException\<close>, lines 222-223 and 303-304.\<close>

fun request_failed :: "exn \<Rightarrow> exn + response" where
  "request_failed (RequestException m) =
     Inr (JDict [(''error'', JStr ''Failed to fetch from Golf API''), (''details'', JStr m)], 500)"
| "request_failed e = Inl e"

definition catch_request_exception :: "(exn + response) \<times> world \<Rightarrow> (exn + response) \<times> world" where
  "catch_request_exception r =
     (case fst r of
        Inl e \<Rightarrow> (request_failed e, snd r)
      | Inr resp \<Rightarrow> r)"

text \<open>Lines 171-223: what \<^verbatim>\<open>get_course_coordinates\<close> does after a \<^verbatim>\<open>SELECT\<close> that found
  no row.\<close>

definition coordinates_miss ::
  "library \<Rightarrow> config \<Rightarrow> string \<Rightarrow> world \<Rightarrow> (exn + response) \<times> world" where
  "coordinates_miss lib cfg course_id w =
     (if unset (GOLF_API_TOKEN cfg)
      then (Inr (JDict [(''error'', JStr ''Golf API token not configured'')], 500), w)
      else catch_request_exception (fetch_upstream lib cfg Coordinates course_id w))"

text \<open>Lines 255-304: the same for \<^verbatim>\<open>get_course_info\<close>, which has no test of the token.\<close>

definition info_miss ::
  "library \<Rightarrow> config \<Rightarrow> string \<Rightarrow> world \<Rightarrow> (exn + response) \<times> world" where
  "info_miss lib cfg course_id w =
     catch_request_exception (fetch_upstream lib cfg Info course_id w)"

definition get_course_coordinates ::
  "library \<Rightarrow> config \<Rightarrow> string \<Rightarrow> world \<Rightarrow> response \<times> world" where
  "get_course_coordinates lib cfg course_id w =
     db_error_handler lib
       (case db_connect_error w of
          Some m \<Rightarrow> (Inl (DbError m), w)
        | None \<Rightarrow>
            (case select_value (course_poi_cache w) (cache_key Coordinates course_id) of
               Some v \<Rightarrow> (cached_response lib Coordinates v, w)
             | None \<Rightarrow> coordinates_miss lib cfg course_id w))"

definition get_course_info ::
  "library \<Rightarrow> config \<Rightarrow> string \<Rightarrow> world \<Rightarrow> response \<times> world" where
  "get_course_info lib cfg course_id w =
     db_error_handler lib
       (case db_connect_error w of
          Some m \<Rightarrow> (Inl (DbError m), w)
        | None \<Rightarrow>
            (case select_value (course_info_cache w) (cache_key Info course_id) of
               Some v \<Rightarrow> (cached_response lib Info v, w)
             | None \<Rightarrow> info_miss lib cfg course_id w))"

text \<open>The resolver of the specification: the handler of the kind.\<close>

definition resolve :: "library \<Rightarrow> config \<Rightarrow> kind \<Rightarrow> string \<Rightarrow> world \<Rightarrow> response \<times> world" where
  "resolve lib cfg k course_id w =
     (case k of
        Coordinates \<Rightarrow> get_course_coordinates lib cfg course_id w
      | Info \<Rightarrow> get_course_info lib cfg course_id w)"

text \<open>Lines 117-138 of \<^verbatim>\<open>store_cached_course_poi\<close>, for a request body whose
  \<^verbatim>\<open>key\<close> is a string: a dictionary or list is serialised, anything else is stored as
  it is.\<close>

definition store_cached_course_poi ::
  "library \<Rightarrow> string \<Rightarrow> json \<Rightarrow> world \<Rightarrow> response \<times> world" where
  "store_cached_course_poi lib key val w =
     db_error_handler lib
       (let value_json =
              (case val of
                 JDict kvs \<Rightarrow> JStr (json_dumps lib val)
               | JList xs \<Rightarrow> JStr (json_dumps lib val)
               | _ \<Rightarrow> val)
        in case db_connect_error w of
             Some m \<Rightarrow> (Inl (DbError m), w)
           | None \<Rightarrow>
               (Inr (JDict [(''success'', JBool True), (''key'', JStr key)], 201),
                w\<lparr>course_poi_cache := upsert_touch (course_poi_cache w) key value_json (now w)\<rparr>))"

section \<open>The grouping of green entries, in the words of the specification\<close>

text \<open>
  The specification describes \<^verbatim>\<open>extract_green_centers\<close> by its result: the entries
  that pass the filter are grouped by hole; for each hole the front, centre and back of
  the green come from the entries at location 1, 2 and 3, the last entry winning; the
  holes come out in ascending order of hole number. The definitions below say this
  directly, for a list of coordinate entries whose hole numbers are integers; they are
  compared with the loop of the source further down.
\<close>

definition hole_int :: "pydict \<Rightarrow> int" where
  "hole_int coord = (case dict_get coord ''hole'' JNull of JInt n \<Rightarrow> n | _ \<Rightarrow> 0)"

text \<open>The hole numbers of the entries kept by the filter, ascending, each once.\<close>

definition green_holes :: "pydict list \<Rightarrow> int list" where
  "green_holes coords = sort (remdups (map hole_int (filter is_green coords)))"

text \<open>The last kept entry of hole \<open>n\<close> at location \<open>l\<close>, if there is one.\<close>

definition last_green :: "pydict list \<Rightarrow> int \<Rightarrow> int \<Rightarrow> pydict option" where
  "last_green coords n l =
     (let cs = filter (\<lambda>c. is_green c \<and> hole_int c = n \<and>
                           py_eq_int (dict_get c ''location'' JNull) l) coords
      in if cs = [] then None else Some (last cs))"

text \<open>The dictionary of hole \<open>n\<close>, as a map from field name to value.\<close>

definition spec_hole :: "pydict list \<Rightarrow> int \<Rightarrow> string \<Rightarrow> json option" where
  "spec_hole coords n field =
     (if field = ''holeNumber'' then Some (JInt n)
      else if field = ''frontOfGreen'' then map_option lat_long (last_green coords n 1)
      else if field = ''centerOfGreen'' then map_option lat_long (last_green coords n 2)
      else if field = ''backOfGreen'' then map_option lat_long (last_green coords n 3)
      else None)"

text \<open>The field a kept entry writes, and the invariant of the loop: after the entries
  \<open>coords\<close>, the keys of \<^verbatim>\<open>holes_data\<close> are the hole numbers of the kept entries, each
  once, and the dictionary of each hole is the one the specification describes.\<close>

definition field_name :: "pydict \<Rightarrow> string" where
  "field_name coord =
     (if py_eq_int (dict_get coord ''location'' JNull) 1 then ''frontOfGreen''
      else if py_eq_int (dict_get coord ''location'' JNull) 2 then ''centerOfGreen''
      else ''backOfGreen'')"

definition holes_inv :: "pydict list \<Rightarrow> holes \<Rightarrow> bool" where
  "holes_inv coords H \<longleftrightarrow>
     (\<exists>ns. map fst H = map JInt ns \<and> distinct ns \<and>
           set ns = hole_int ` set (filter is_green coords)) \<and>
     (\<forall>n d. map_of H (JInt n) = Some d \<longrightarrow>
            map_of d = spec_hole coords n \<and> distinct (map fst d))"

section \<open>An example deployment\<close>

text \<open>The scenario of the specification: course \<^verbatim>\<open>X1\<close>, whose coordinates payload has
  one green entry, and a payload with several entries for the grouping.\<close>

definition example_payload :: json where
  "example_payload =
     JDict [(''courseID'', JStr ''X1''),
            (''coordinates'',
               JList [JDict [(''hole'', JInt 1), (''poi'', JInt 1), (''location'', JInt 2),
                             (''latitude'', JFloat 10), (''longitude'', JFloat 20)]]),
            (''apiRequestsLeft'', JStr ''42'')]"

definition example_green_centers :: json where
  "example_green_centers =
     JDict [(''courseID'', JStr ''X1''),
            (''holes'',
               JList [JDict [(''holeNumber'', JInt 1),
                             (''centerOfGreen'',
                                JDict [(''latitude'', JFloat 10), (''longitude'', JFloat 20)])]]),
            (''count'', JInt 1)]"

definition example_info :: json where
  "example_info =
     JDict [(''courseID'', JStr ''X1''),
            (''parsMen'', JList [JInt 4, JInt 3, JInt 5]),
            (''parsWomen'', JList [JInt 4, JInt 3, JInt 5]),
            (''apiRequestsLeft'', JStr ''41'')]"

definition example_coords :: "pydict list" where
  "example_coords =
     [[(''hole'', JInt 2), (''poi'', JInt 1), (''location'', JInt 2),
       (''latitude'', JFloat 1), (''longitude'', JFloat 2)],
      [(''hole'', JInt 1), (''poi'', JInt 1), (''location'', JInt 1),
       (''latitude'', JFloat 3), (''longitude'', JFloat 4)],
      [(''hole'', JInt 7), (''poi'', JInt 2), (''location'', JInt 1),
       (''latitude'', JFloat 5), (''longitude'', JFloat 6)],
      [(''hole'', JInt 2), (''poi'', JInt 1), (''location'', JInt 2),
       (''latitude'', JFloat 7), (''longitude'', JFloat 8)]]"

definition example_course :: "(string \<times> json) list" where
  "example_course =
     [(''courseID'', JStr ''X2''), (''coordinates'', JList (map JDict example_coords))]"

definition example_library :: "http_response \<Rightarrow> library" where
  "example_library resp =
     \<lparr> requests_get = (\<lambda>url auth. Inr resp),
       smtp_send = (\<lambda>user password msg. None),
       json_loads =
         (\<lambda>s. if s = ''<coordinates X1>'' then Some example_payload
              else if s = ''<info X1>'' then Some example_info
              else None),
       json_dumps =
         (\<lambda>v. if v = example_payload then ''<coordinates X1>''
              else if v = example_info then ''<info X1>''
              else ''null''),
       json_dumps_indent = (\<lambda>v. ''<indented>''),
       py_str = (\<lambda>v. case v of JStr s \<Rightarrow> s | _ \<Rightarrow> ''?''),
       exn_text = (\<lambda>e. ''error'') \<rparr>"

definition example_config :: "string option \<Rightarrow> config" where
  "example_config token =
     \<lparr> GOLF_API_TOKEN = token,
       GMAIL_USER = Some ''me@example.org'',
       GMAIL_APP_PASSWORD = Some ''abcd efgh'',
       RECIPIENT_EMAIL = Some ''you@example.org'',
       COURSES = JList [JDict [(''courseId'', JStr ''X1''), (''courseName'', JStr ''Old Links'')]] \<rparr>"

definition ok_response :: http_response where
  "ok_response =
     \<lparr> status_code = 200, response_text = ''<coordinates X1>'',
       response_json = Inr example_payload \<rparr>"

definition info_response :: http_response where
  "info_response =
     \<lparr> status_code = 200, response_text = ''<info X1>'', response_json = Inr example_info \<rparr>"

definition rate_limited :: http_response where
  "rate_limited =
     \<lparr> status_code = 429, response_text = ''rate limited'',
       response_json = Inr (JDict [(''msg'', JStr ''rate limited'')]) \<rparr>"

text \<open>An empty store at time 5; a store that holds the coordinates of \<^verbatim>\<open>X1\<close>, written at
  time 5 and read at time 9; and the same with an older value.\<close>

definition empty_world :: world where
  "empty_world =
     \<lparr> db_connect_error = None,
       course_poi_cache = Map.empty,
       course_info_cache = Map.empty,
       now = 5,
       upstream_calls = [],
       notify_calls = [],
       emails_sent = [] \<rparr>"

definition cached_world :: world where
  "cached_world =
     \<lparr> db_connect_error = None,
       course_poi_cache = [''coordinates_X1'' \<mapsto> (JStr ''<coordinates X1>'', 5)],
       course_info_cache = Map.empty,
       now = 9,
       upstream_calls = [],
       notify_calls = [],
       emails_sent = [] \<rparr>"

definition stale_world :: world where
  "stale_world =
     \<lparr> db_connect_error = None,
       course_poi_cache = [''coordinates_X1'' \<mapsto> (JStr ''<stale>'', 5)],
       course_info_cache = Map.empty,
       now = 9,
       upstream_calls = [],
       notify_calls = [],
       emails_sent = [] \<rparr>"

text \<open>The world after the first request for the coordinates of \<^verbatim>\<open>X1\<close> on the empty
  store.\<close>

definition first_world :: world where
  "first_world =
     snd (resolve (example_library ok_response) (example_config (Some ''tok'')) Coordinates ''X1''
            empty_world)"

section \<open>Properties of the normalizer\<close>

subsection \<open>Payloads without usable data\<close>

text \<open>
  Claim C4, as stated: \<^verbatim>\<open>extract_pars\<close> applied to the empty object returns
  \<^verbatim>\<open>{courseID: "", parsMen: [], parsWomen: []}\<close>. It does not: the empty dictionary is
  falsy, and line 372 answers every falsy payload with the error object.
\<close>

theorem extract_pars_empty_object_counterexample:
  "extract_pars (JDict []) \<noteq>
     Inr (JDict [(''courseID'', JStr ''''), (''parsMen'', JList []), (''parsWomen'', JList [])])"
  by (simp add: extract_pars_def invalid_info_def)

text \<open>
  Claim C4, amended: \<^verbatim>\<open>extract_pars\<close> applied to \<^verbatim>\<open>None\<close> or to the empty object returns
  an object with an \<^verbatim>\<open>error\<close> field; applied to a non-empty object it returns
  \<^verbatim>\<open>courseID\<close>, \<^verbatim>\<open>parsMen\<close> and \<^verbatim>\<open>parsWomen\<close>, each one defaulting (to the empty string,
  the empty list and the empty list) when the object lacks it.
\<close>

theorem extract_pars_defaults:
  "extract_pars JNull = Inr (JDict [(''error'', JStr ''Invalid course data format'')]) \<and>
   extract_pars (JDict []) = Inr (JDict [(''error'', JStr ''Invalid course data format'')]) \<and>
   (kvs \<noteq> [] \<longrightarrow>
      extract_pars (JDict kvs) =
        Inr (JDict [(''courseID'', case map_of kvs ''courseID'' of None \<Rightarrow> JStr '''' | Some v \<Rightarrow> v),
                    (''parsMen'', case map_of kvs ''parsMen'' of None \<Rightarrow> JList [] | Some v \<Rightarrow> v),
                    (''parsWomen'', case map_of kvs ''parsWomen'' of None \<Rightarrow> JList [] | Some v \<Rightarrow> v)]))"
  by (simp add: extract_pars_def invalid_info_def dict_get_def)

text \<open>A non-empty object with none of the three fields gets all three defaults.\<close>

theorem extract_pars_defaults_witness:
  "[(''name'', JStr ''Old Links'')] \<noteq> [] \<and>
   extract_pars (JDict [(''name'', JStr ''Old Links'')]) =
     Inr (JDict [(''courseID'', JStr ''''), (''parsMen'', JList []), (''parsWomen'', JList [])])"
  using extract_pars_defaults [of "[(''name'', JStr ''Old Links'')]"] by simp

text \<open>
  Claim C7: \<^verbatim>\<open>extract_green_centers\<close> applied to an object without a \<^verbatim>\<open>coordinates\<close> field
  (the empty object among them) returns the value \<^verbatim>\<open>{error, holes: []}\<close>; it does not
  raise.
\<close>

theorem extract_green_centers_no_coordinates:
  "map_of kvs ''coordinates'' = None \<Longrightarrow>
   extract_green_centers (JDict kvs) =
     Inr (JDict [(''error'', JStr ''Invalid course data format''), (''holes'', JList [])])"
  by (simp add: extract_green_centers_def invalid_coordinates_def)

theorem extract_green_centers_no_coordinates_witness:
  "map_of ([] :: (string \<times> json) list) ''coordinates'' = None \<and>
   extract_green_centers (JDict []) =
     Inr (JDict [(''error'', JStr ''Invalid course data format''), (''holes'', JList [])])"
  using extract_green_centers_no_coordinates [of "[]"] by simp

lemma green_loop_skips:
  "\<forall>e\<in>set entries. \<exists>coord. e = JDict coord \<and> \<not> is_green coord \<Longrightarrow>
   green_loop H entries = Inr H"
  by (induction entries arbitrary: H) auto

lemma extract_green_centers_error_field:
  assumes "extract_green_centers p = Inr (JDict r)" and "map_of r ''error'' \<noteq> None"
  shows "\<not> truthy p \<or> py_contains p ''coordinates'' = Inr False"
proof (rule ccontr)
  assume "\<not> (\<not> truthy p \<or> py_contains p ''coordinates'' = Inr False)"
  then have t: "truthy p" and c: "py_contains p ''coordinates'' \<noteq> Inr False" by simp_all
  from assms(1) t c obtain course holes_list where
    "r = [(''courseID'', course), (''holes'', JList holes_list),
          (''count'', JInt (int (length holes_list)))]"
    by (auto simp: extract_green_centers_def split: sum.splits bool.splits)
  with assms(2) show False by simp
qed

text \<open>
  Claim C9: a payload whose \<^verbatim>\<open>coordinates\<close> list is empty, or holds only entries that
  fail the filter \<^verbatim>\<open>poi == 1 and location in {1,2,3}\<close>, gets the answer
  \<^verbatim>\<open>{courseID, holes: [], count: 0}\<close>, which has no \<^verbatim>\<open>error\<close> field; and whenever
  \<^verbatim>\<open>extract_green_centers\<close> returns an object with an \<^verbatim>\<open>error\<close> field, the payload was
  falsy or had no \<^verbatim>\<open>coordinates\<close> in it.
\<close>

theorem extract_green_centers_no_greens:
  assumes "map_of kvs ''coordinates'' = Some (JList entries)"
      and "\<forall>e\<in>set entries. \<exists>coord. e = JDict coord \<and> \<not> is_green coord"
  shows "extract_green_centers (JDict kvs) =
           Inr (JDict [(''courseID'', dict_get kvs ''courseID'' (JStr '''')),
                       (''holes'', JList []),
                       (''count'', JInt 0)]) \<and>
         (\<forall>p r. extract_green_centers p = Inr (JDict r) \<and> map_of r ''error'' \<noteq> None \<longrightarrow>
                \<not> truthy p \<or> py_contains p ''coordinates'' = Inr False)"
proof
  from assms(1) have "kvs \<noteq> []" by auto
  with assms(1) green_loop_skips [OF assms(2), of "[]"]
  show "extract_green_centers (JDict kvs) =
           Inr (JDict [(''courseID'', dict_get kvs ''courseID'' (JStr '''')),
                       (''holes'', JList []),
                       (''count'', JInt 0)])"
    by (simp add: extract_green_centers_def dict_get_def py_sorted_def)
next
  show "\<forall>p r. extract_green_centers p = Inr (JDict r) \<and> map_of r ''error'' \<noteq> None \<longrightarrow>
                \<not> truthy p \<or> py_contains p ''coordinates'' = Inr False"
    using extract_green_centers_error_field by blast
qed

text \<open>A payload whose only entry is a bunker (\<^verbatim>\<open>poi\<close> 2).\<close>

theorem extract_green_centers_no_greens_witness:
  "map_of [(''courseID'', JStr ''X1''),
           (''coordinates'', JList [JDict [(''hole'', JInt 1), (''poi'', JInt 2),
                                          (''location'', JInt 1)]])] ''coordinates'' =
     Some (JList [JDict [(''hole'', JInt 1), (''poi'', JInt 2), (''location'', JInt 1)]]) \<and>
   \<not> is_green [(''hole'', JInt 1), (''poi'', JInt 2), (''location'', JInt 1)] \<and>
   extract_green_centers
     (JDict [(''courseID'', JStr ''X1''),
             (''coordinates'', JList [JDict [(''hole'', JInt 1), (''poi'', JInt 2),
                                            (''location'', JInt 1)]])]) =
     Inr (JDict [(''courseID'', JStr ''X1''), (''holes'', JList []), (''count'', JInt 0)])"
proof -
  have h1: "map_of [(''courseID'', JStr ''X1''),
           (''coordinates'', JList [JDict [(''hole'', JInt 1), (''poi'', JInt 2),
                                          (''location'', JInt 1)]])] ''coordinates'' =
     Some (JList [JDict [(''hole'', JInt 1), (''poi'', JInt 2), (''location'', JInt 1)]])"
    by simp
  have h2: "\<forall>e\<in>set [JDict [(''hole'', JInt 1), (''poi'', JInt 2), (''location'', JInt 1)]].
      \<exists>coord. e = JDict coord \<and> \<not> is_green coord"
    by (simp add: is_green_def dict_get_def py_eq_int_def)
  have h3: "\<not> is_green [(''hole'', JInt 1), (''poi'', JInt 2), (''location'', JInt 1)]"
    by (simp add: is_green_def dict_get_def py_eq_int_def)
  from extract_green_centers_no_greens [OF h1 h2] h1 h3 show ?thesis
    by (simp add: dict_get_def)
qed

subsection \<open>The grouping of green entries\<close>

lemma py_eq_int_excl: "py_eq_int v i \<Longrightarrow> py_eq_int v j \<Longrightarrow> i = j"
  by (simp add: py_eq_int_def)

text \<open>On keys that are integers, \<^verbatim>\<open>holes_data\<close> behaves as an association list.\<close>

lemma holes_mem_int:
  "map fst H = map JInt ns \<Longrightarrow> holes_mem H (JInt n) \<longleftrightarrow> n \<in> set ns"
  by (induction H arbitrary: ns) (auto simp: key_eq_def)

lemma holes_get_int:
  "map fst H = map JInt ns \<Longrightarrow>
   holes_get H (JInt n) = (case map_of H (JInt n) of None \<Rightarrow> Inl KeyError | Some d \<Rightarrow> Inr d)"
  by (induction H arbitrary: ns) (auto simp: key_eq_def)

lemma holes_set_int:
  "map fst H = map JInt ns \<Longrightarrow> holes_set H (JInt n) d = AList.update (JInt n) d H"
  by (induction H arbitrary: ns) (auto simp: key_eq_def)

lemma is_green_location:
  "is_green c \<Longrightarrow>
   py_eq_int (dict_get c ''location'' JNull) 1 \<or>
   py_eq_int (dict_get c ''location'' JNull) 2 \<or>
   py_eq_int (dict_get c ''location'' JNull) 3"
  by (simp add: is_green_def)

text \<open>How one more entry changes the dictionary the specification describes.\<close>

lemma last_green_snoc:
  "last_green (coords @ [c]) n l =
     (if is_green c \<and> hole_int c = n \<and> py_eq_int (dict_get c ''location'' JNull) l
      then Some c else last_green coords n l)"
  by (simp add: last_green_def Let_def)

lemma spec_hole_snoc_other:
  "\<not> (is_green c \<and> hole_int c = n) \<Longrightarrow> spec_hole (coords @ [c]) n = spec_hole coords n"
  by (auto simp: spec_hole_def last_green_snoc fun_eq_iff)

lemma spec_hole_snoc_green:
  assumes "is_green c" and "hole_int c = n"
  shows "spec_hole (coords @ [c]) n = (spec_hole coords n)(field_name c \<mapsto> lat_long c)"
proof -
  have excl: "\<And>i j. py_eq_int (dict_get c ''location'' JNull) i \<Longrightarrow> i \<noteq> j \<Longrightarrow>
                \<not> py_eq_int (dict_get c ''location'' JNull) j"
    using py_eq_int_excl by blast
  from is_green_location [OF assms(1)] show ?thesis
  proof (elim disjE)
    assume at_front: "py_eq_int (dict_get c ''location'' JNull) 1"
    from excl [OF at_front, of 2] excl [OF at_front, of 3] at_front assms show ?thesis
      by (auto simp: spec_hole_def last_green_snoc field_name_def fun_eq_iff)
  next
    assume at_center: "py_eq_int (dict_get c ''location'' JNull) 2"
    from excl [OF at_center, of 1] excl [OF at_center, of 3] at_center assms show ?thesis
      by (auto simp: spec_hole_def last_green_snoc field_name_def fun_eq_iff)
  next
    assume at_back: "py_eq_int (dict_get c ''location'' JNull) 3"
    from excl [OF at_back, of 1] excl [OF at_back, of 2] at_back assms show ?thesis
      by (auto simp: spec_hole_def last_green_snoc field_name_def fun_eq_iff)
  qed
qed

lemma spec_hole_fresh:
  assumes "n \<notin> hole_int ` set (filter is_green coords)"
  shows "spec_hole coords n = map_of [(''holeNumber'', JInt n)]"
proof -
  have "last_green coords n l = None" for l
  proof -
    have "filter (\<lambda>c. is_green c \<and> hole_int c = n \<and>
             py_eq_int (dict_get c ''location'' JNull) l) coords = []"
      using assms by (auto simp: filter_empty_conv)
    then show ?thesis by (simp add: last_green_def)
  qed
  then show ?thesis by (auto simp: spec_hole_def fun_eq_iff)
qed

text \<open>One iteration on a kept entry with an integer hole number.\<close>

lemma green_step_green:
  assumes "is_green c" and "dict_get c ''hole'' JNull = JInt n"
  shows "green_step H (JDict c) =
           holes_set_field
             (if \<not> holes_mem H (JInt n) then holes_set H (JInt n) [(''holeNumber'', JInt n)] else H)
             (JInt n) (field_name c) (lat_long c)"
  using assms is_green_location [OF assms(1)]
  by (auto simp: Let_def field_name_def)

lemma holes_inv_skip:
  assumes "holes_inv coords H" and "\<not> is_green c"
  shows "holes_inv (coords @ [c]) H"
  using assms by (simp add: holes_inv_def spec_hole_snoc_other)

lemma holes_inv_green:
  assumes inv: "holes_inv coords H"
      and green: "is_green c"
      and hole: "dict_get c ''hole'' JNull = JInt n"
  shows "\<exists>H'. green_step H (JDict c) = Inr H' \<and> holes_inv (coords @ [c]) H'"
proof -
  from inv obtain ns where
    keys: "map fst H = map JInt ns" and dist: "distinct ns"
    and ns: "set ns = hole_int ` set (filter is_green coords)"
    and dicts: "\<And>m d. map_of H (JInt m) = Some d \<Longrightarrow>
                  map_of d = spec_hole coords m \<and> distinct (map fst d)"
    unfolding holes_inv_def by blast
  from hole have hn: "hole_int c = n" by (simp add: hole_int_def)
  define H1 where
    "H1 = (if \<not> holes_mem H (JInt n) then holes_set H (JInt n) [(''holeNumber'', JInt n)] else H)"
  define ns1 where "ns1 = (if n \<in> set ns then ns else ns @ [n])"
  have inj: "inj JInt" by (simp add: inj_on_def)
  have keys1: "map fst H1 = map JInt ns1"
    using keys inj
    by (auto simp: H1_def ns1_def holes_mem_int [OF keys] holes_set_int [OF keys] update_keys
          inj_image_mem_iff)
  have dist1: "distinct ns1" using dist by (simp add: ns1_def)
  have set1: "set ns1 = hole_int ` set (filter is_green (coords @ [c]))"
    using ns green hn by (auto simp: ns1_def)
  have mem1: "n \<in> set ns1" by (simp add: ns1_def)
  have other1: "map_of H1 (JInt m) = map_of H (JInt m)" if "m \<noteq> n" for m
    using that by (simp add: H1_def holes_set_int [OF keys] update_conv')
  obtain d1 where d1: "map_of H1 (JInt n) = Some d1"
    and d1_spec: "map_of d1 = spec_hole coords n" and d1_dist: "distinct (map fst d1)"
  proof (cases "n \<in> set ns")
    case True
    then have "JInt n \<in> fst ` set H"
      using keys by (metis image_eqI list.set_map)
    then obtain d where d: "map_of H (JInt n) = Some d"
      by (metis domD dom_map_of_conv_image_fst)
    from True have "H1 = H" by (simp add: H1_def holes_mem_int [OF keys])
    with d dicts [OF d] that show ?thesis by simp
  next
    case False
    then have "H1 = AList.update (JInt n) [(''holeNumber'', JInt n)] H"
      by (simp add: H1_def holes_mem_int [OF keys] holes_set_int [OF keys])
    then have "map_of H1 (JInt n) = Some [(''holeNumber'', JInt n)]"
      by (simp add: update_conv')
    moreover from False ns have "spec_hole coords n = map_of [(''holeNumber'', JInt n)]"
      by (intro spec_hole_fresh) simp
    ultimately show ?thesis using that by simp
  qed
  define d2 where "d2 = AList.update (field_name c) (lat_long c) d1"
  define H2 where "H2 = AList.update (JInt n) d2 H1"
  have "green_step H (JDict c) = holes_set_field H1 (JInt n) (field_name c) (lat_long c)"
    unfolding H1_def by (rule green_step_green [OF green hole])
  also have "\<dots> = Inr H2"
    using d1
    by (simp add: holes_set_field_def holes_get_int [OF keys1] holes_set_int [OF keys1]
          H2_def d2_def)
  finally have step: "green_step H (JDict c) = Inr H2" .
  have keys2: "map fst H2 = map JInt ns1"
    using keys1 mem1 by (simp add: H2_def update_keys)
  have dicts2: "map_of d = spec_hole (coords @ [c]) m \<and> distinct (map fst d)"
    if "map_of H2 (JInt m) = Some d" for m d
  proof (cases "m = n")
    case True
    with that have "d = d2" by (simp add: H2_def update_conv')
    then show ?thesis
      using True d1_spec d1_dist
      by (simp add: d2_def update_conv' distinct_update spec_hole_snoc_green [OF green hn])
  next
    case False
    with that have "map_of H (JInt m) = Some d"
      by (simp add: H2_def update_conv' other1)
    from dicts [OF this] False hn show ?thesis
      by (simp add: spec_hole_snoc_other)
  qed
  have "holes_inv (coords @ [c]) H2"
    unfolding holes_inv_def using keys2 dist1 set1 dicts2 by blast
  with step show ?thesis by blast
qed

text \<open>The loop, entry by entry from the left, keeps the invariant.\<close>

lemma green_loop_snoc:
  "green_loop H (es @ [e]) =
     (case green_loop H es of Inl x \<Rightarrow> Inl x | Inr H' \<Rightarrow> green_step H' e)"
  by (induction es arbitrary: H) (auto split: sum.splits)

lemma green_loop_inv:
  assumes "\<forall>c\<in>set coords. is_green c \<longrightarrow> (\<exists>n. dict_get c ''hole'' JNull = JInt n)"
  shows "\<exists>H. green_loop [] (map JDict coords) = Inr H \<and> holes_inv coords H"
  using assms
proof (induction coords rule: rev_induct)
  case Nil
  show ?case by (simp add: holes_inv_def)
next
  case (snoc c coords)
  then obtain H where H: "green_loop [] (map JDict coords) = Inr H" and inv: "holes_inv coords H"
    by auto
  show ?case
  proof (cases "is_green c")
    case True
    with snoc.prems obtain n where "dict_get c ''hole'' JNull = JInt n" by auto
    from holes_inv_green [OF inv True this] H show ?thesis
      by (simp add: green_loop_snoc)
  next
    case False
    with H holes_inv_skip [OF inv False] show ?thesis
      by (simp add: green_loop_snoc)
  qed
qed

text \<open>Sorting integer keys is sorting the integers.\<close>

lemma insort_JInt:
  "insort_key num_key (JInt n) (map JInt ns) = map JInt (insort n ns)"
  by (induction ns) (simp_all add: num_key_def)

lemma sort_JInt: "sort_key num_key (map JInt ns) = map JInt (sort ns)"
  by (induction ns) (simp_all add: insort_JInt)

lemma sort_short: "length ns \<le> 1 \<Longrightarrow> sort ns = ns"
  by (cases ns) (auto simp: length_Suc_conv)

lemma py_sorted_JInt: "py_sorted (map JInt ns) = Inr (map JInt (sort ns))"
  by (simp add: py_sorted_def sort_JInt sort_short list_all_iff)

lemma green_holes_keys:
  assumes "distinct ns" and "set ns = hole_int ` set (filter is_green coords)"
  shows "sort ns = green_holes coords"
proof -
  have "sort ns = sorted_list_of_set (set ns)"
    using assms(1) by (simp add: sorted_list_of_set_sort_remdups distinct_remdups_id)
  also have "\<dots> = green_holes coords"
    using assms(2) by (simp add: green_holes_def sorted_list_of_set_sort_remdups [symmetric])
  finally show ?thesis .
qed

lemma green_holes_ascending: "sorted_wrt (<) (green_holes coords)"
  by (simp add: green_holes_def strict_sorted_iff)

lemma holes_list_of_inv:
  assumes inv: "holes_inv coords H"
      and sub: "set ms \<subseteq> hole_int ` set (filter is_green coords)"
  shows "\<exists>hs. holes_list_of H (map JInt ms) = Inr (map JDict hs) \<and>
              map map_of hs = map (spec_hole coords) ms \<and>
              (\<forall>h\<in>set hs. distinct (map fst h))"
  using sub
proof (induction ms)
  case Nil
  show ?case by simp
next
  case (Cons m ms)
  from inv obtain ns where
    keys: "map fst H = map JInt ns"
    and ns: "set ns = hole_int ` set (filter is_green coords)"
    and dicts: "\<And>m d. map_of H (JInt m) = Some d \<Longrightarrow>
                  map_of d = spec_hole coords m \<and> distinct (map fst d)"
    unfolding holes_inv_def by blast
  from Cons.prems ns have "m \<in> set ns" by simp
  then have "JInt m \<in> fst ` set H"
    using keys by (metis image_eqI list.set_map)
  then obtain d where d: "map_of H (JInt m) = Some d"
    by (metis domD dom_map_of_conv_image_fst)
  from Cons obtain hs where
    hs: "holes_list_of H (map JInt ms) = Inr (map JDict hs)"
    and spec: "map map_of hs = map (spec_hole coords) ms"
    and dist: "\<forall>h\<in>set hs. distinct (map fst h)"
    by auto
  from d hs have "holes_list_of H (map JInt (m # ms)) = Inr (map JDict (d # hs))"
    by (simp add: holes_get_int [OF keys])
  moreover from dicts [OF d] spec have "map map_of (d # hs) = map (spec_hole coords) (m # ms)"
    by simp
  moreover from dicts [OF d] dist have "\<forall>h\<in>set (d # hs). distinct (map fst h)"
    by simp
  ultimately show ?case by blast
qed

text \<open>
  Claim C2: for a payload with a \<^verbatim>\<open>coordinates\<close> list of coordinate objects, whose kept
  entries (those with \<^verbatim>\<open>poi == 1\<close> and \<^verbatim>\<open>location\<close> in 1, 2, 3) have integer hole numbers,
  \<^verbatim>\<open>extract_green_centers\<close> returns \<^verbatim>\<open>courseID\<close>, \<^verbatim>\<open>holes\<close> and \<^verbatim>\<open>count\<close>, where: there is one
  hole per hole number of the kept entries, in strictly ascending order of hole number;
  the dictionary of a hole has \<^verbatim>\<open>holeNumber\<close> and, for each of locations 1, 2, 3 that a
  kept entry of the hole has, \<^verbatim>\<open>frontOfGreen\<close>, \<^verbatim>\<open>centerOfGreen\<close>, \<^verbatim>\<open>backOfGreen\<close> with the
  latitude and longitude of the last such entry, and nothing else; and \<^verbatim>\<open>count\<close> is the
  number of holes.
\<close>

theorem extract_green_centers_groups:
  assumes coords: "map_of kvs ''coordinates'' = Some (JList (map JDict coords))"
      and holes: "\<forall>c\<in>set coords. is_green c \<longrightarrow> (\<exists>n. dict_get c ''hole'' JNull = JInt n)"
  shows "\<exists>hs. extract_green_centers (JDict kvs) =
                Inr (JDict [(''courseID'', dict_get kvs ''courseID'' (JStr '''')),
                            (''holes'', JList (map JDict hs)),
                            (''count'', JInt (int (length hs)))]) \<and>
              map map_of hs = map (spec_hole coords) (green_holes coords) \<and>
              (\<forall>h\<in>set hs. distinct (map fst h)) \<and>
              sorted_wrt (<) (green_holes coords)"
proof -
  from green_loop_inv [OF holes] obtain H where
    loop: "green_loop [] (map JDict coords) = Inr H" and inv: "holes_inv coords H"
    by blast
  from inv obtain ns where
    keys: "map fst H = map JInt ns" and dist: "distinct ns"
    and ns: "set ns = hole_int ` set (filter is_green coords)"
    unfolding holes_inv_def by blast
  have sorted_keys: "py_sorted (map fst H) = Inr (map JInt (green_holes coords))"
    by (simp add: keys py_sorted_JInt green_holes_keys [OF dist ns])
  have "set (green_holes coords) \<subseteq> hole_int ` set (filter is_green coords)"
    by (simp add: green_holes_def)
  from holes_list_of_inv [OF inv this] obtain hs where
    hs: "holes_list_of H (map JInt (green_holes coords)) = Inr (map JDict hs)"
    and spec: "map map_of hs = map (spec_hole coords) (green_holes coords)"
    and hdist: "\<forall>h\<in>set hs. distinct (map fst h)"
    by blast
  from coords have nonempty: "kvs \<noteq> []" by auto
  have "extract_green_centers (JDict kvs) =
          Inr (JDict [(''courseID'', dict_get kvs ''courseID'' (JStr '''')),
                      (''holes'', JList (map JDict hs)),
                      (''count'', JInt (int (length hs)))])"
    using coords nonempty loop sorted_keys hs
    by (simp add: extract_green_centers_def dict_get_def)
  with spec hdist green_holes_ascending show ?thesis by blast
qed

text \<open>Four entries: hole 2 twice at the centre, hole 1 at the front, and a bunker of hole 7.
  The answer has holes 1 and 2, and the centre of hole 2 is the later entry's.\<close>

theorem extract_green_centers_groups_witness:
  "map_of example_course ''coordinates'' = Some (JList (map JDict example_coords)) \<and>
   map (\<lambda>c. dict_get c ''hole'' JNull) (filter is_green example_coords) =
     [JInt 2, JInt 1, JInt 2] \<and>
   green_holes example_coords = [1, 2] \<and>
   spec_hole example_coords 2 ''centerOfGreen'' =
     Some (JDict [(''latitude'', JFloat 7), (''longitude'', JFloat 8)]) \<and>
   (\<exists>hs. extract_green_centers (JDict example_course) =
            Inr (JDict [(''courseID'', JStr ''X2''),
                        (''holes'', JList (map JDict hs)),
                        (''count'', JInt 2)]) \<and>
          map map_of hs = [spec_hole example_coords 1, spec_hole example_coords 2])"
proof -
  have h1: "map_of example_course ''coordinates'' = Some (JList (map JDict example_coords))"
    by (simp add: example_course_def)
  have h2: "\<forall>c\<in>set example_coords. is_green c \<longrightarrow> (\<exists>n. dict_get c ''hole'' JNull = JInt n)"
    by (simp add: example_coords_def dict_get_def)
  have k: "map (\<lambda>c. dict_get c ''hole'' JNull) (filter is_green example_coords) =
     [JInt 2, JInt 1, JInt 2]"
    by (simp add: example_coords_def is_green_def dict_get_def py_eq_int_def)
  have g: "green_holes example_coords = [1, 2]"
    by (simp add: green_holes_def example_coords_def is_green_def dict_get_def py_eq_int_def
          hole_int_def)
  have s: "spec_hole example_coords 2 ''centerOfGreen'' =
     Some (JDict [(''latitude'', JFloat 7), (''longitude'', JFloat 8)])"
    by (simp add: spec_hole_def last_green_def example_coords_def is_green_def dict_get_def
          py_eq_int_def hole_int_def lat_long_def)
  from extract_green_centers_groups [OF h1 h2] obtain hs where
    r: "extract_green_centers (JDict example_course) =
          Inr (JDict [(''courseID'', dict_get example_course ''courseID'' (JStr '''')),
                      (''holes'', JList (map JDict hs)),
                      (''count'', JInt (int (length hs)))])"
    and m: "map map_of hs = map (spec_hole example_coords) (green_holes example_coords)"
    by blast
  from m g have len: "length hs = 2"
    by (metis length_map list.size(3,4) One_nat_def Suc_1 add.right_neutral add_Suc_right)
  have c: "dict_get example_course ''courseID'' (JStr '''') = JStr ''X2''"
    by (simp add: example_course_def dict_get_def)
  from r m g len c have
    "extract_green_centers (JDict example_course) =
            Inr (JDict [(''courseID'', JStr ''X2''),
                        (''holes'', JList (map JDict hs)),
                        (''count'', JInt 2)]) \<and>
          map map_of hs = [spec_hole example_coords 1, spec_hole example_coords 2]"
    by simp
  then have e: "\<exists>hs. extract_green_centers (JDict example_course) =
            Inr (JDict [(''courseID'', JStr ''X2''),
                        (''holes'', JList (map JDict hs)),
                        (''count'', JInt 2)]) \<and>
          map map_of hs = [spec_hole example_coords 1, spec_hole example_coords 2]"
    by (rule exI)
  show ?thesis using h1 k g s e by (intro conjI) assumption+
qed

section \<open>Properties of the resolvers\<close>

subsection \<open>What the notification touches\<close>

lemma send_course_email_world:
  "\<exists>es. snd (send_course_email lib cfg course_id course_name course_data data_type left w) =
     w\<lparr>notify_calls := notify_calls w @ [(course_id, course_name, course_data, data_type, left)],
       emails_sent := es\<rparr>"
proof -
  have "\<exists>es. w1 = w1\<lparr>emails_sent := es\<rparr>" for w1 :: world
    by (rule exI [of _ "emails_sent w1"]) simp
  from this [of "w\<lparr>notify_calls := notify_calls w @
                     [(course_id, course_name, course_data, data_type, left)]\<rparr>"]
  show ?thesis
    by (auto simp: send_course_email_def try_send_def Let_def split: option.splits sum.splits)
qed

lemma send_course_email_keeps:
  "upstream_calls (snd (send_course_email lib cfg course_id course_name course_data data_type
      left w)) = upstream_calls w"
  "course_poi_cache (snd (send_course_email lib cfg course_id course_name course_data data_type
      left w)) = course_poi_cache w"
  "course_info_cache (snd (send_course_email lib cfg course_id course_name course_data data_type
      left w)) = course_info_cache w"
  using send_course_email_world [of lib cfg course_id course_name course_data data_type left w]
  by auto

lemma cache_insert_upstream_calls:
  "upstream_calls (cache_insert k key v w) = upstream_calls w"
  by (cases k) (simp_all add: cache_insert_def)

subsection \<open>Cache hits\<close>

lemma resolve_hit:
  assumes "db_connect_error w = None"
      and "cache_of k w (cache_key k course_id) = Some row"
  shows "resolve lib cfg k course_id w =
           ((case decode_cached lib (fst row) of
               Inl e \<Rightarrow> error_response lib e
             | Inr raw \<Rightarrow>
                 (case normalize k raw of
                    Inl e \<Rightarrow> error_response lib e
                  | Inr normalized \<Rightarrow> (normalized, 200))), w)"
  using assms
  by (cases k)
     (simp_all add: resolve_def get_course_coordinates_def get_course_info_def select_value_def
        cache_of_def db_error_handler_def cached_response_def jsonify_def split: sum.splits)

text \<open>
  Claim C1: when the cache had no entry for (course, kind), a first call of \<open>resolve\<close> left
  one there, and the database is reachable, a second call makes no request to the Golf
  API (it changes nothing at all), and its response is computed from the stored value
  alone: the value is decoded and normalised, and an exception of either step becomes
  the error response of \<^verbatim>\<open>db_error_handler\<close>.
\<close>

theorem second_resolve_served_from_cache:
  assumes "resolve lib1 cfg1 k course_id w0 = (r1, w1)"
      and "cache_of k w0 (cache_key k course_id) = None"
      and "cache_of k w1 (cache_key k course_id) = Some (v, t)"
      and "db_connect_error w1 = None"
      and "resolve lib2 cfg2 k course_id w1 = (r2, w2)"
  shows "upstream_calls w2 = upstream_calls w1 \<and>
         w2 = w1 \<and>
         r2 = (case decode_cached lib2 v of
                 Inl e \<Rightarrow> error_response lib2 e
               | Inr raw \<Rightarrow>
                   (case normalize k raw of
                      Inl e \<Rightarrow> error_response lib2 e
                    | Inr normalized \<Rightarrow> (normalized, 200)))"
  using resolve_hit [OF assms(4) assms(3), where lib = lib2 and cfg = cfg2] assms(5) by simp

text \<open>The scenario of the specification: the first call fetches and stores the payload
  of \<^verbatim>\<open>X1\<close>; the second call, with no token and an upstream that would answer 429,
  returns the same green centres and makes no request.\<close>

theorem second_resolve_served_from_cache_witness:
  "cache_of Coordinates empty_world (cache_key Coordinates ''X1'') = None \<and>
   cache_of Coordinates first_world (cache_key Coordinates ''X1'') =
     Some (JStr ''<coordinates X1>'', 5) \<and>
   db_connect_error first_world = None \<and>
   upstream_calls first_world =
     [(''https://www.golfapi.io/api/v2.3/coordinates/X1'', ''Bearer tok'')] \<and>
   upstream_calls
     (snd (resolve (example_library rate_limited) (example_config None) Coordinates ''X1''
             first_world)) =
     [(''https://www.golfapi.io/api/v2.3/coordinates/X1'', ''Bearer tok'')] \<and>
   fst (resolve (example_library rate_limited) (example_config None) Coordinates ''X1''
          first_world) =
     (example_green_centers, 200)"
proof -
  have h1: "resolve (example_library ok_response) (example_config (Some ''tok'')) Coordinates
              ''X1'' empty_world =
            (fst (resolve (example_library ok_response) (example_config (Some ''tok''))
                    Coordinates ''X1'' empty_world), first_world)"
    by (simp add: first_world_def)
  have h2: "cache_of Coordinates empty_world (cache_key Coordinates ''X1'') = None"
    by code_simp
  have h3: "cache_of Coordinates first_world (cache_key Coordinates ''X1'') =
              Some (JStr ''<coordinates X1>'', 5)"
    by code_simp
  have h4: "db_connect_error first_world = None"
    by code_simp
  have h5: "resolve (example_library rate_limited) (example_config None) Coordinates ''X1''
              first_world =
            (fst (resolve (example_library rate_limited) (example_config None) Coordinates ''X1''
                    first_world),
             snd (resolve (example_library rate_limited) (example_config None) Coordinates ''X1''
                    first_world))"
    by simp
  have u: "upstream_calls first_world =
             [(''https://www.golfapi.io/api/v2.3/coordinates/X1'', ''Bearer tok'')]"
    by code_simp
  have d: "(case decode_cached (example_library rate_limited) (JStr ''<coordinates X1>'') of
              Inl e \<Rightarrow> error_response (example_library rate_limited) e
            | Inr raw \<Rightarrow>
                (case normalize Coordinates raw of
                   Inl e \<Rightarrow> error_response (example_library rate_limited) e
                 | Inr normalized \<Rightarrow> (normalized, 200))) =
           (example_green_centers, 200)"
    by code_simp
  from second_resolve_served_from_cache [OF h1 h2 h3 h4 h5] u d
  have "upstream_calls
          (snd (resolve (example_library rate_limited) (example_config None) Coordinates ''X1''
             first_world)) =
          [(''https://www.golfapi.io/api/v2.3/coordinates/X1'', ''Bearer tok'')]"
    and "fst (resolve (example_library rate_limited) (example_config None) Coordinates ''X1''
          first_world) = (example_green_centers, 200)"
    by simp_all
  with h2 h3 h4 u show ?thesis by (intro conjI) assumption+
qed

text \<open>What a first call leaves in the cache is the serialised payload of the upstream's
  answer 200, stamped with the time of the call; so the second response is that payload,
  serialised, parsed and normalised.\<close>

lemma fetch_upstream_cache:
  assumes "cache_of k w (cache_key k course_id) = None"
      and "cache_of k (snd (fetch_upstream lib cfg k course_id w)) (cache_key k course_id) =
             Some (v, t)"
  shows "\<exists>resp data.
           requests_get lib (golf_api_url k course_id) (bearer (GOLF_API_TOKEN cfg)) = Inr resp \<and>
           status_code resp = 200 \<and> response_json resp = Inr data \<and>
           v = JStr (json_dumps lib data) \<and> t = now w"
  using assms
  by (cases k)
     (auto simp: fetch_upstream_def Let_def cache_of_def cache_insert_def upsert_value_def
        send_course_email_keeps split: sum.splits if_splits)

lemma first_resolve_stores_payload:
  assumes "cache_of k w (cache_key k course_id) = None"
      and "cache_of k (snd (resolve lib cfg k course_id w)) (cache_key k course_id) = Some (v, t)"
  shows "\<exists>resp data.
           requests_get lib (golf_api_url k course_id) (bearer (GOLF_API_TOKEN cfg)) = Inr resp \<and>
           status_code resp = 200 \<and> response_json resp = Inr data \<and>
           v = JStr (json_dumps lib data) \<and> t = now w"
proof -
  have "cache_of k (snd (fetch_upstream lib cfg k course_id w)) (cache_key k course_id) =
          Some (v, t)"
    using assms
    by (cases k)
       (auto simp: resolve_def get_course_coordinates_def get_course_info_def select_value_def
          cache_of_def db_error_handler_def coordinates_miss_def info_miss_def
          catch_request_exception_def split: option.splits sum.splits if_splits)
  from fetch_upstream_cache [OF assms(1) this] show ?thesis .
qed

text \<open>
  Claim C10: on a cache hit \<open>resolve\<close> does not read the token. With the database
  reachable and an entry for (course, kind) in the cache, the run with any other value
  of \<^verbatim>\<open>GOLF_API_TOKEN\<close> (set or unset) gives the same response and the same world, and
  the response is the decoded and normalised entry.
\<close>

theorem cache_hit_ignores_token:
  assumes "db_connect_error w = None"
      and "cache_of k w (cache_key k course_id) = Some row"
  shows "resolve lib (cfg\<lparr>GOLF_API_TOKEN := token\<rparr>) k course_id w =
           resolve lib cfg k course_id w \<and>
         resolve lib cfg k course_id w =
           ((case decode_cached lib (fst row) of
               Inl e \<Rightarrow> error_response lib e
             | Inr raw \<Rightarrow>
                 (case normalize k raw of
                    Inl e \<Rightarrow> error_response lib e
                  | Inr normalized \<Rightarrow> (normalized, 200))), w)"
  using resolve_hit [OF assms, where lib = lib and cfg = cfg]
        resolve_hit [OF assms, where lib = lib and cfg = "cfg\<lparr>GOLF_API_TOKEN := token\<rparr>"]
  by simp

theorem cache_hit_ignores_token_witness:
  "db_connect_error cached_world = None \<and>
   cache_of Coordinates cached_world (cache_key Coordinates ''X1'') =
     Some (JStr ''<coordinates X1>'', 5) \<and>
   resolve (example_library rate_limited) ((example_config None)\<lparr>GOLF_API_TOKEN := Some ''tok''\<rparr>)
     Coordinates ''X1'' cached_world =
   resolve (example_library rate_limited) (example_config None) Coordinates ''X1'' cached_world \<and>
   resolve (example_library rate_limited) (example_config None) Coordinates ''X1'' cached_world =
     ((example_green_centers, 200), cached_world)"
proof -
  have h1: "db_connect_error cached_world = None"
    by code_simp
  have h2: "cache_of Coordinates cached_world (cache_key Coordinates ''X1'') =
              Some (JStr ''<coordinates X1>'', 5)"
    by code_simp
  have d: "(case decode_cached (example_library rate_limited)
                   (fst (JStr ''<coordinates X1>'', 5::nat)) of
              Inl e \<Rightarrow> error_response (example_library rate_limited) e
            | Inr raw \<Rightarrow>
                (case normalize Coordinates raw of
                   Inl e \<Rightarrow> error_response (example_library rate_limited) e
                 | Inr normalized \<Rightarrow> (normalized, 200))) =
           (example_green_centers, 200)"
    by code_simp
  from cache_hit_ignores_token
         [OF h1 h2, where lib = "example_library rate_limited" and cfg = "example_config None"
            and token = "Some ''tok''"] d
  have "resolve (example_library rate_limited)
          ((example_config None)\<lparr>GOLF_API_TOKEN := Some ''tok''\<rparr>) Coordinates ''X1'' cached_world =
        resolve (example_library rate_limited) (example_config None) Coordinates ''X1''
          cached_world"
    and "resolve (example_library rate_limited) (example_config None) Coordinates ''X1''
          cached_world = ((example_green_centers, 200), cached_world)"
    by simp_all
  with h1 h2 show ?thesis by (intro conjI) assumption+
qed

subsection \<open>Cache misses\<close>

lemma fetch_upstream_other_status:
  assumes "requests_get lib (golf_api_url k course_id) (bearer (GOLF_API_TOKEN cfg)) = Inr resp"
      and "status_code resp \<noteq> 200"
  shows "fetch_upstream lib cfg k course_id w =
           (Inr (JDict [(''error'', JStr ''Golf API request failed''),
                        (''status_code'', JInt (status_code resp)),
                        (''details'', JStr (response_text resp))],
                 status_code resp),
            w\<lparr>upstream_calls := upstream_calls w @
                  [(golf_api_url k course_id, bearer (GOLF_API_TOKEN cfg))]\<rparr>)"
  using assms by (simp add: fetch_upstream_def Let_def)

text \<open>
  Claim C3: on a cache miss (database reachable, no row for the key) where the request
  to the Golf API is made (for coordinates this needs a token) and answered with a
  status outside 200-299, \<open>resolve\<close> answers with that status and a body that carries the
  status and the upstream's body text; it writes to neither cache table and calls no
  notification.
\<close>

theorem resolve_upstream_status:
  assumes "db_connect_error w = None"
      and "cache_of k w (cache_key k course_id) = None"
      and "k = Coordinates \<longrightarrow> \<not> unset (GOLF_API_TOKEN cfg)"
      and "requests_get lib (golf_api_url k course_id) (bearer (GOLF_API_TOKEN cfg)) = Inr resp"
      and "\<not> (200 \<le> status_code resp \<and> status_code resp < 300)"
  shows "fst (resolve lib cfg k course_id w) =
           (JDict [(''error'', JStr ''Golf API request failed''),
                   (''status_code'', JInt (status_code resp)),
                   (''details'', JStr (response_text resp))],
            status_code resp) \<and>
         course_poi_cache (snd (resolve lib cfg k course_id w)) = course_poi_cache w \<and>
         course_info_cache (snd (resolve lib cfg k course_id w)) = course_info_cache w \<and>
         notify_calls (snd (resolve lib cfg k course_id w)) = notify_calls w \<and>
         emails_sent (snd (resolve lib cfg k course_id w)) = emails_sent w"
proof -
  from assms(5) have ne: "status_code resp \<noteq> 200" by arith
  show ?thesis
  proof (cases k)
    case Coordinates
    with assms(1-3) fetch_upstream_other_status [OF assms(4) ne, of w] show ?thesis
      by (simp add: resolve_def get_course_coordinates_def select_value_def cache_of_def
          coordinates_miss_def catch_request_exception_def db_error_handler_def)
  next
    case Info
    with assms(1-3) fetch_upstream_other_status [OF assms(4) ne, of w] show ?thesis
      by (simp add: resolve_def get_course_info_def select_value_def cache_of_def
          info_miss_def catch_request_exception_def db_error_handler_def)
  qed
qed

text \<open>The upstream answers 429 with the body \<^verbatim>\<open>rate limited\<close>.\<close>

theorem resolve_upstream_status_witness:
  "db_connect_error empty_world = None \<and>
   cache_of Coordinates empty_world (cache_key Coordinates ''X1'') = None \<and>
   \<not> unset (GOLF_API_TOKEN (example_config (Some ''tok''))) \<and>
   requests_get (example_library rate_limited) (golf_api_url Coordinates ''X1'')
     (bearer (GOLF_API_TOKEN (example_config (Some ''tok'')))) = Inr rate_limited \<and>
   status_code rate_limited = 429 \<and>
   fst (resolve (example_library rate_limited) (example_config (Some ''tok'')) Coordinates ''X1''
          empty_world) =
     (JDict [(''error'', JStr ''Golf API request failed''),
             (''status_code'', JInt 429),
             (''details'', JStr ''rate limited'')], 429) \<and>
   course_poi_cache
     (snd (resolve (example_library rate_limited) (example_config (Some ''tok'')) Coordinates
             ''X1'' empty_world)) = course_poi_cache empty_world \<and>
   notify_calls
     (snd (resolve (example_library rate_limited) (example_config (Some ''tok'')) Coordinates
             ''X1'' empty_world)) = []"
proof -
  have h1: "db_connect_error empty_world = None"
    by code_simp
  have h2: "cache_of Coordinates empty_world (cache_key Coordinates ''X1'') = None"
    by code_simp
  have t: "\<not> unset (GOLF_API_TOKEN (example_config (Some ''tok'')))"
    by code_simp
  then have h3: "Coordinates = Coordinates \<longrightarrow>
                  \<not> unset (GOLF_API_TOKEN (example_config (Some ''tok'')))"
    by simp
  have h4: "requests_get (example_library rate_limited) (golf_api_url Coordinates ''X1'')
     (bearer (GOLF_API_TOKEN (example_config (Some ''tok'')))) = Inr rate_limited"
    by (simp add: example_library_def)
  have s: "status_code rate_limited = 429" and b: "response_text rate_limited = ''rate limited''"
    by (simp_all add: rate_limited_def)
  from s have h5: "\<not> (200 \<le> status_code rate_limited \<and> status_code rate_limited < 300)"
    by simp
  have n: "notify_calls empty_world = []"
    by (simp add: empty_world_def)
  from resolve_upstream_status [OF h1 h2 h3 h4 h5] s b n
  have "fst (resolve (example_library rate_limited) (example_config (Some ''tok'')) Coordinates
          ''X1'' empty_world) =
     (JDict [(''error'', JStr ''Golf API request failed''),
             (''status_code'', JInt 429),
             (''details'', JStr ''rate limited'')], 429)"
    and "course_poi_cache
     (snd (resolve (example_library rate_limited) (example_config (Some ''tok'')) Coordinates
             ''X1'' empty_world)) = course_poi_cache empty_world"
    and "notify_calls
     (snd (resolve (example_library rate_limited) (example_config (Some ''tok'')) Coordinates
             ''X1'' empty_world)) = []"
    by simp_all
  with h1 h2 t h4 s show ?thesis by (intro conjI) assumption+
qed

text \<open>Every request to the Golf API is recorded, and \<^verbatim>\<open>get_course_info\<close> makes one
  on every miss, whatever the token.\<close>

lemma fetch_upstream_requests:
  "upstream_calls (snd (fetch_upstream lib cfg k course_id w)) =
     upstream_calls w @ [(golf_api_url k course_id, bearer (GOLF_API_TOKEN cfg))]"
  by (simp add: fetch_upstream_def Let_def send_course_email_keeps cache_insert_upstream_calls
        split: sum.splits)

lemma get_course_info_always_requests:
  assumes "db_connect_error w = None" and "course_info_cache w (cache_key Info course_id) = None"
  shows "upstream_calls (snd (get_course_info lib cfg course_id w)) =
           upstream_calls w @ [(golf_api_url Info course_id, bearer (GOLF_API_TOKEN cfg))]"
  using assms
  by (simp add: get_course_info_def select_value_def info_miss_def catch_request_exception_def
        db_error_handler_def fetch_upstream_requests split: sum.splits)

lemma get_course_coordinates_unset_token:
  assumes "db_connect_error w = None"
      and "course_poi_cache w (cache_key Coordinates course_id) = None"
      and "unset (GOLF_API_TOKEN cfg)"
  shows "get_course_coordinates lib cfg course_id w =
           ((JDict [(''error'', JStr ''Golf API token not configured'')], 500), w)"
  using assms
  by (simp add: get_course_coordinates_def select_value_def coordinates_miss_def
        db_error_handler_def)

text \<open>
  Claim C5 says that a cache miss with no token configured answers 500 for both kinds
  without a request to the Golf API. \<^verbatim>\<open>get_course_coordinates\<close> does (line 176);
  \<^verbatim>\<open>get_course_info\<close> has no such test: with the token unset it sends the request with the
  header \<^verbatim>\<open>Bearer None\<close> and, when the upstream answers 200, returns the pars with status
  200.
\<close>

theorem get_course_info_unset_token:
  "fst (resolve (example_library info_response) (example_config None) Info ''X1'' empty_world) =
     (JDict [(''courseID'', JStr ''X1''),
             (''parsMen'', JList [JInt 4, JInt 3, JInt 5]),
             (''parsWomen'', JList [JInt 4, JInt 3, JInt 5])], 200) \<and>
   upstream_calls
     (snd (resolve (example_library info_response) (example_config None) Info ''X1''
             empty_world)) =
     [(''https://www.golfapi.io/api/v2.3/courses/X1'', ''Bearer None'')] \<and>
   fst (resolve (example_library ok_response) (example_config None) Coordinates ''X1''
          empty_world) =
     (JDict [(''error'', JStr ''Golf API token not configured'')], 500) \<and>
   upstream_calls
     (snd (resolve (example_library ok_response) (example_config None) Coordinates ''X1''
             empty_world)) = []"
  by code_simp

subsection \<open>Cache writes\<close>

lemma upsert_touch_existing:
  "upsert_touch t k v ts k = Some (v, ts)"
  by (simp add: upsert_touch_def)

lemma upsert_value_existing:
  "t k = Some (v0, ts0) \<Longrightarrow> upsert_value t k v ts k = Some (v, ts0)"
  by (simp add: upsert_value_def)

lemma fetch_upstream_keeps_inserted_at:
  assumes "cache_of k w (cache_key k course_id) = Some (v0, t0)"
  shows "\<exists>v. cache_of k (snd (fetch_upstream lib cfg k course_id w)) (cache_key k course_id) =
               Some (v, t0)"
  using assms
  by (cases k)
     (auto simp: fetch_upstream_def Let_def cache_of_def cache_insert_def upsert_value_def
        send_course_email_keeps split: sum.splits)

text \<open>
  Claim C6 says that every write to an existing key sets the entry's timestamp. The
  statement of \<^verbatim>\<open>store_cached_course_poi\<close> does (\<^verbatim>\<open>inserted_at = NOW()\<close>); the statement of
  the resolvers sets the value only. A request that found no row, and writes after
  another request has inserted the row, overwrites the value and leaves
  \<^verbatim>\<open>inserted_at\<close> as it was: here the row was inserted at time 5 and is overwritten at
  time 9.
\<close>

theorem resolver_overwrite_keeps_inserted_at:
  "now stale_world = 9 \<and>
   course_poi_cache stale_world ''coordinates_X1'' = Some (JStr ''<stale>'', 5) \<and>
   course_poi_cache
     (snd (coordinates_miss (example_library ok_response) (example_config (Some ''tok'')) ''X1''
             stale_world)) ''coordinates_X1'' =
     Some (JStr ''<coordinates X1>'', 5) \<and>
   course_poi_cache
     (snd (store_cached_course_poi (example_library ok_response) ''coordinates_X1''
             example_payload stale_world)) ''coordinates_X1'' =
     Some (JStr ''<coordinates X1>'', 9)"
  by code_simp

subsection \<open>Notification\<close>

lemma send_course_email_returns:
  "\<exists>ok. fst (send_course_email lib cfg course_id course_name course_data data_type left w) = Inr ok"
  by (auto simp: send_course_email_def try_send_def Let_def split: option.splits sum.splits)

lemma send_course_email_never_raises:
  "\<exists>ok w'. send_course_email lib cfg course_id course_name course_data data_type left w =
             (Inr ok, w')"
  by (auto simp: send_course_email_def try_send_def Let_def split: option.splits sum.splits)

lemma fetch_upstream_mail_independent:
  "fst (fetch_upstream (lib\<lparr>smtp_send := smtp\<rparr>)
          (cfg\<lparr>GMAIL_USER := user, GMAIL_APP_PASSWORD := password, RECIPIENT_EMAIL := recipient\<rparr>)
          k course_id w) =
   fst (fetch_upstream lib cfg k course_id w)"
  apply (simp add: fetch_upstream_def Let_def split: sum.splits)
  apply (intro conjI impI allI)
  apply (metis send_course_email_returns Inl_Inr_False)+
  done

lemma error_response_smtp:
  "error_response (lib\<lparr>smtp_send := smtp\<rparr>) e = error_response lib e"
  by (cases e) simp_all

lemma decode_cached_smtp:
  "decode_cached (lib\<lparr>smtp_send := smtp\<rparr>) v = decode_cached lib v"
  by (cases v) (simp_all add: decode_cached_def)

lemma miss_mail_independent:
  "fst (catch_request_exception (fetch_upstream (lib\<lparr>smtp_send := smtp\<rparr>)
          (cfg\<lparr>GMAIL_USER := user, GMAIL_APP_PASSWORD := password, RECIPIENT_EMAIL := recipient\<rparr>)
          k course_id w)) =
   fst (catch_request_exception (fetch_upstream lib cfg k course_id w))"
  using fetch_upstream_mail_independent
    [where lib = lib and smtp = smtp and cfg = cfg and user = user and password = password
       and recipient = recipient and k = k and course_id = course_id and w = w]
  by (simp add: catch_request_exception_def split: sum.splits)

text \<open>
  Claim C8: \<^verbatim>\<open>send_course_email\<close> never raises: it returns a boolean whatever the mail
  configuration, the course name and the SMTP server do. And the response of \<open>resolve\<close>
  does not depend on the notification: with any other mail configuration (set or
  unset) and any other behaviour of the SMTP server (accepting or raising), the
  response is the same, so in particular the same as when the notification succeeds.
\<close>

theorem notification_outcome_absorbed:
  "(\<exists>ok w'. send_course_email lib cfg course_id course_name course_data data_type left w =
              (Inr ok, w')) \<and>
   fst (resolve (lib\<lparr>smtp_send := smtp\<rparr>)
          (cfg\<lparr>GMAIL_USER := user, GMAIL_APP_PASSWORD := password, RECIPIENT_EMAIL := recipient\<rparr>)
          k course_id w) =
   fst (resolve lib cfg k course_id w)"
proof
  show "\<exists>ok w'. send_course_email lib cfg course_id course_name course_data data_type left w =
                  (Inr ok, w')"
    by (rule send_course_email_never_raises)
next
  show "fst (resolve (lib\<lparr>smtp_send := smtp\<rparr>)
          (cfg\<lparr>GMAIL_USER := user, GMAIL_APP_PASSWORD := password, RECIPIENT_EMAIL := recipient\<rparr>)
          k course_id w) =
        fst (resolve lib cfg k course_id w)"
    using miss_mail_independent
      [where lib = lib and smtp = smtp and cfg = cfg and user = user and password = password
         and recipient = recipient and course_id = course_id and w = w]
    by (cases k)
       (simp_all add: resolve_def get_course_coordinates_def get_course_info_def
          db_error_handler_def coordinates_miss_def info_miss_def cached_response_def
          error_response_smtp decode_cached_smtp
          split: option.splits sum.splits)
qed

text \<open>A first request for \<^verbatim>\<open>X1\<close>, which notifies: with the mail configuration unset and an
  SMTP server that refuses the connection, the response is the one of the run where the
  email is sent.\<close>

theorem notification_outcome_absorbed_witness:
  "(\<exists>ok w'. send_course_email (example_library ok_response) (example_config (Some ''tok'')) ''X1''
              (JStr ''Old Links'') example_payload ''POI'' (JStr ''42'') empty_world =
              (Inr ok, w')) \<and>
   fst (resolve ((example_library ok_response)
                   \<lparr>smtp_send := \<lambda>user password msg. Some (Exception ''connection refused'')\<rparr>)
          ((example_config (Some ''tok''))
             \<lparr>GMAIL_USER := None, GMAIL_APP_PASSWORD := None, RECIPIENT_EMAIL := None\<rparr>)
          Coordinates ''X1'' empty_world) =
   fst (resolve (example_library ok_response) (example_config (Some ''tok'')) Coordinates ''X1''
          empty_world) \<and>
   fst (resolve (example_library ok_response) (example_config (Some ''tok'')) Coordinates ''X1''
          empty_world) = (example_green_centers, 200) \<and>
   notify_calls first_world =
     [(''X1'', JStr ''Old Links'', example_payload, ''POI'', JStr ''42'')] \<and>
   length (emails_sent first_world) = 1"
proof -
  note a = notification_outcome_absorbed
    [where lib = "example_library ok_response" and cfg = "example_config (Some ''tok'')"
       and course_id = "''X1''" and course_name = "JStr ''Old Links''"
       and course_data = example_payload and data_type = "''POI''" and left = "JStr ''42''"
       and w = empty_world
       and smtp = "\<lambda>user password msg. Some (Exception ''connection refused'')"
       and user = None and password = None and recipient = None and k = Coordinates]
  have r: "fst (resolve (example_library ok_response) (example_config (Some ''tok''))
                  Coordinates ''X1'' empty_world) = (example_green_centers, 200)"
    by code_simp
  have n: "notify_calls first_world =
             [(''X1'', JStr ''Old Links'', example_payload, ''POI'', JStr ''42'')]"
    by code_simp
  have e: "length (emails_sent first_world) = 1"
    by code_simp
  from a r n e show ?thesis by (intro conjI) blast+
qed

end
